theory Spec2Isabelle
  imports Main "HOL-Library.Multiset" "HOL-Library.Sublist" "HOL-Library.Product_Lexorder"
begin

section \<open>Mission Control API server: errors and authentication\<close>

text \<open>
  The handlers of \<^verbatim>\<open>scripts/api_server.py\<close> raise \<^verbatim>\<open>HTTPException(status_code, detail)\<close>;
  the framework itself rejects a query parameter outside its declared bounds. Both are
  values of the error type: a handler returns \<open>http_error + 'a\<close>.
\<close>

datatype http_error =
    HTTPException nat string
  | RequestValidationError

text \<open>
  Python strings that arrive in a header are sequences of code points below 256, which is
  what \<open>char\<close> holds. \<^verbatim>\<open>str.lower\<close> on that range moves \<^verbatim>\<open>A-Z\<close> and the
  Latin-1 capitals (192 to 222, the multiplication sign 215 apart) up by 32 and leaves
  everything else alone.
\<close>

definition lower_char :: "char \<Rightarrow> char" where
  "lower_char c =
     (let n = (of_char c :: nat)
      in if (65 \<le> n \<and> n \<le> 90) \<or> (192 \<le> n \<and> n \<le> 222 \<and> n \<noteq> 215)
         then char_of (n + 32) else c)"

definition lower :: "string \<Rightarrow> string" where
  "lower s = map lower_char s"

text \<open>\<^verbatim>\<open>s.partition(" ")\<close>: the text before the first space, the separator, the text after
  it; when there is no space, the whole string and two empty strings.\<close>

definition partition_space :: "string \<Rightarrow> string \<times> string \<times> string" where
  "partition_space s =
     (if CHR '' '' \<in> set s
      then (takeWhile (\<lambda>c. c \<noteq> CHR '' '') s, '' '', tl (dropWhile (\<lambda>c. c \<noteq> CHR '' '') s))
      else (s, [], []))"

text \<open>
  \<^verbatim>\<open>verify_token\<close>, with the module constant \<^verbatim>\<open>TOKEN\<close> as its first argument. Python's
  \<^verbatim>\<open>not authorization\<close> holds for \<^verbatim>\<open>None\<close> and for the empty string.
\<close>

definition verify_token :: "string \<Rightarrow> string option \<Rightarrow> http_error + unit" where
  "verify_token TOKEN authorization =
     (if TOKEN = [] then Inr ()
      else (case authorization of
          None \<Rightarrow> Inl (HTTPException 401 ''Missing authorization header'')
        | Some a \<Rightarrow>
            if a = [] then Inl (HTTPException 401 ''Missing authorization header'')
            else (case partition_space a of (scheme, _, token) \<Rightarrow>
              if lower scheme \<noteq> ''bearer''
              then Inl (HTTPException 401 ''Invalid authorization scheme'')
              else if token \<noteq> TOKEN then Inl (HTTPException 403 ''Invalid token'')
              else Inr ())))"

text \<open>
  The routes the module registers, and which of them declare \<^verbatim>\<open>Depends(verify_token)\<close>:
  all but \<^verbatim>\<open>/health\<close>. The module uses the name \<^verbatim>\<open>Depends\<close> without importing it; it is
  read as the framework's \<^verbatim>\<open>fastapi.Depends\<close>, which runs the dependency before the handler.
\<close>

datatype route =
    Health
  | GetKanbanTasks
  | CreateTask
  | GetTask
  | UpdateTask
  | DeleteTask
  | GetActivity
  | LogActivity
  | StreamKanban
  | StreamActivity
  | GetAgentProfiles
  | GetAgentProfile

fun depends_verify_token :: "route \<Rightarrow> bool" where
  "depends_verify_token Health = False"
| "depends_verify_token GetKanbanTasks = True"
| "depends_verify_token CreateTask = True"
| "depends_verify_token GetTask = True"
| "depends_verify_token UpdateTask = True"
| "depends_verify_token DeleteTask = True"
| "depends_verify_token GetActivity = True"
| "depends_verify_token LogActivity = True"
| "depends_verify_token StreamKanban = True"
| "depends_verify_token StreamActivity = True"
| "depends_verify_token GetAgentProfiles = True"
| "depends_verify_token GetAgentProfile = True"

text \<open>What a request meets before its handler runs.\<close>

definition auth_check :: "string \<Rightarrow> route \<Rightarrow> string option \<Rightarrow> http_error + unit" where
  "auth_check TOKEN r authorization =
     (if depends_verify_token r then verify_token TOKEN authorization else Inr ())"

section \<open>The store\<close>

text \<open>
  Identifiers are the 128-bit numbers that \<^verbatim>\<open>uuid.UUID\<close> holds, timestamps are points on
  an integer time line. A bound parameter of a statement is one of the values below
  (\<open>Null\<close> for Python's \<^verbatim>\<open>None\<close>).
\<close>

type_synonym uuid = nat
type_synonym timestamp = int

datatype sql_value =
    Text string
  | Integer int
  | Timestamp timestamp
  | Uuid uuid
  | Null

text \<open>A row of the table \<^verbatim>\<open>tasks\<close>; the column \<^verbatim>\<open>id\<close> is the field \<open>row_id\<close>.\<close>

record task_row =
  row_id :: uuid
  title :: string
  description :: "string option"
  status :: string
  priority :: int
  agent_id :: "string option"
  created_at :: timestamp
  updated_at :: timestamp
  completed_at :: "timestamp option"

text \<open>A row of the table \<^verbatim>\<open>activity_events\<close>. The module registers no codec on its
  connections, so the column \<^verbatim>\<open>data\<close> is fetched as the text the store gives for it, or as
  \<^verbatim>\<open>None\<close> for NULL.\<close>

record event_row =
  event_id :: uuid
  event_type :: string
  source :: "string option"
  data :: "string option"
  event_created_at :: timestamp

text \<open>
  The store behind the connection pool: the two tables, and the statements it has been
  sent so far, each with its query text and its bound parameters.
\<close>

record database =
  tasks :: "task_row list"
  activity_events :: "event_row list"
  statements :: "(string \<times> sql_value list) list"

definition send :: "string \<Rightarrow> sql_value list \<Rightarrow> database \<Rightarrow> database" where
  "send query params db = db\<lparr>statements := statements db @ [(query, params)]\<rparr>"

text \<open>
  \<^verbatim>\<open>ORDER BY priority DESC, created_at DESC\<close> and \<^verbatim>\<open>ORDER BY created_at DESC\<close>. SQL leaves
  the order of rows with equal keys open; the model keeps them in table order.
\<close>

definition order_by_priority_created :: "task_row list \<Rightarrow> task_row list" where
  "order_by_priority_created rows = sort_key (\<lambda>r. (- priority r, - created_at r)) rows"

definition order_by_created_desc :: "event_row list \<Rightarrow> event_row list" where
  "order_by_created_desc rows = sort_key (\<lambda>r. - event_created_at r) rows"

text \<open>\<^verbatim>\<open>conn.fetchrow("SELECT * FROM tasks WHERE id = $1", tid)\<close>.\<close>

definition fetchrow_task :: "uuid \<Rightarrow> database \<Rightarrow> task_row option \<times> database" where
  "fetchrow_task tid db =
     (find (\<lambda>r. row_id r = tid) (tasks db),
      send ''SELECT * FROM tasks WHERE id = $1'' [Uuid tid] db)"

text \<open>The dictionary every task handler answers with: one entry per column. The renderings
  \<^verbatim>\<open>str(row["id"])\<close> and \<^verbatim>\<open>isoformat()\<close> are left as the values they render.\<close>

definition task_dict :: "task_row \<Rightarrow> task_row" where
  "task_dict row =
     \<lparr> row_id = row_id row, title = title row, description = description row,
       status = status row, priority = priority row, agent_id = agent_id row,
       created_at = created_at row, updated_at = updated_at row,
       completed_at = completed_at row \<rparr>"

text \<open>Python's truth value of an optional string: \<^verbatim>\<open>None\<close> and \<^verbatim>\<open>""\<close> are false.\<close>

definition truthy :: "string option \<Rightarrow> bool" where
  "truthy s = (case s of None \<Rightarrow> False | Some v \<Rightarrow> v \<noteq> [])"

section \<open>Task handlers\<close>

text \<open>
  \<^verbatim>\<open>get_kanban_tasks\<close>: the branch is chosen by the truth value of \<^verbatim>\<open>status\<close>, then of
  \<^verbatim>\<open>agent_id\<close>; a string is true when it is not empty, which is the pattern \<open>Some (c # cs)\<close>.
  A NULL \<^verbatim>\<open>agent_id\<close> column equals no parameter.
\<close>

definition get_kanban_tasks ::
  "string option \<Rightarrow> string option \<Rightarrow> database \<Rightarrow> task_row list \<times> database" where
  "get_kanban_tasks status_q agent_q db =
     (case status_q of
        Some (c # cs) \<Rightarrow>
          (map task_dict
             (order_by_priority_created (filter (\<lambda>r. status r = c # cs) (tasks db))),
           send ''SELECT * FROM tasks WHERE status = $1 ORDER BY priority DESC, created_at DESC''
             [Text (c # cs)] db)
      | _ \<Rightarrow>
          (case agent_q of
             Some (c # cs) \<Rightarrow>
               (map task_dict
                  (order_by_priority_created
                     (filter (\<lambda>r. agent_id r = Some (c # cs)) (tasks db))),
                send ''SELECT * FROM tasks WHERE agent_id = $1 ORDER BY priority DESC, created_at DESC''
                  [Text (c # cs)] db)
           | _ \<Rightarrow>
               (map task_dict (order_by_priority_created (tasks db)),
                send ''SELECT * FROM tasks ORDER BY priority DESC, created_at DESC'' [] db)))"

text \<open>
  \<^verbatim>\<open>get_task\<close>. \<^verbatim>\<open>uuid.UUID(task_id)\<close> is an argument of the call to \<^verbatim>\<open>fetchrow\<close>, so it
  is evaluated, and may raise \<^verbatim>\<open>ValueError\<close>, before anything is sent. The parser belongs
  to the standard library and is the parameter \<open>UUID\<close>: \<open>None\<close> is its \<^verbatim>\<open>ValueError\<close>.
\<close>

definition get_task ::
  "(string \<Rightarrow> uuid option) \<Rightarrow> string \<Rightarrow> database \<Rightarrow> (http_error + task_row) \<times> database" where
  "get_task UUID task_id db =
     (case UUID task_id of
        None \<Rightarrow> (Inl (HTTPException 400 ''Invalid task ID''), db)
      | Some tid \<Rightarrow>
          (case fetchrow_task tid db of
             (None, db') \<Rightarrow> (Inl (HTTPException 404 ''Task not found''), db')
           | (Some row, db') \<Rightarrow> (Inr (task_dict row), db')))"

text \<open>
  \<^verbatim>\<open>TaskUpdate\<close>, the body of a PUT: every field is optional, and \<^verbatim>\<open>completed_at\<close> is a
  string.
\<close>

record TaskUpdate =
  upd_title :: "string option"
  upd_description :: "string option"
  upd_status :: "string option"
  upd_priority :: "int option"
  upd_agent_id :: "string option"
  upd_completed_at :: "string option"

text \<open>
  The dictionary \<^verbatim>\<open>updates\<close> as \<^verbatim>\<open>update_task\<close> fills it before its emptiness test, in
  insertion order. No key is assigned twice, so the association list is the dictionary.
  \<open>now\<close> is the reading of \<^verbatim>\<open>datetime.now()\<close> taken for \<^verbatim>\<open>completed_at\<close>.
\<close>

definition collect_updates :: "TaskUpdate \<Rightarrow> timestamp \<Rightarrow> (string \<times> sql_value) list" where
  "collect_updates task now =
     (case upd_title task of None \<Rightarrow> [] | Some v \<Rightarrow> [(''title'', Text v)]) @
     (case upd_description task of None \<Rightarrow> [] | Some v \<Rightarrow> [(''description'', Text v)]) @
     (case upd_status task of
        None \<Rightarrow> []
      | Some v \<Rightarrow>
          (''status'', Text v) #
          (if v = ''done'' \<and> \<not> truthy (upd_completed_at task)
           then [(''completed_at'', Timestamp now)] else [])) @
     (case upd_priority task of None \<Rightarrow> [] | Some v \<Rightarrow> [(''priority'', Integer v)]) @
     (case upd_agent_id task of None \<Rightarrow> [] | Some v \<Rightarrow> [(''agent_id'', Text v)])"

text \<open>Decimal digits of a number, as an f-string renders it.\<close>

fun str_nat :: "nat \<Rightarrow> string" where
  "str_nat n =
     (if n < 10 then [char_of (48 + n)]
      else str_nat (n div 10) @ [char_of (48 + n mod 10)])"

declare str_nat.simps [simp del]

text \<open>\<^verbatim>\<open>", ".join(f"{k} = ${i+2}" for i, k in enumerate(updates.keys()))\<close>.\<close>

fun enumerate_from :: "nat \<Rightarrow> 'a list \<Rightarrow> (nat \<times> 'a) list" where
  "enumerate_from i [] = []"
| "enumerate_from i (k # ks) = (i, k) # enumerate_from (Suc i) ks"

fun join :: "string \<Rightarrow> string list \<Rightarrow> string" where
  "join sep [] = []"
| "join sep [x] = x"
| "join sep (x # y # ys) = x @ sep @ join sep (y # ys)"

definition set_clause :: "string list \<Rightarrow> string" where
  "set_clause keys =
     join '', '' (map (\<lambda>(i, k). k @ '' = $'' @ str_nat (i + 2)) (enumerate_from 0 keys))"

text \<open>
  What the store does with \<^verbatim>\<open>SET k = v\<close> for one entry of \<^verbatim>\<open>updates\<close>, and with the whole
  statement \<^verbatim>\<open>UPDATE tasks SET ... WHERE id = $1\<close>: every row with that id gets every
  assignment, in order.
\<close>

definition set_column :: "string \<times> sql_value \<Rightarrow> task_row \<Rightarrow> task_row" where
  "set_column kv row =
     (case kv of
        (k, Text v) \<Rightarrow>
          if k = ''title'' then row\<lparr>title := v\<rparr>
          else if k = ''description'' then row\<lparr>description := Some v\<rparr>
          else if k = ''status'' then row\<lparr>status := v\<rparr>
          else if k = ''agent_id'' then row\<lparr>agent_id := Some v\<rparr>
          else row
      | (k, Integer v) \<Rightarrow> if k = ''priority'' then row\<lparr>priority := v\<rparr> else row
      | (k, Timestamp v) \<Rightarrow>
          if k = ''completed_at'' then row\<lparr>completed_at := Some v\<rparr>
          else if k = ''updated_at'' then row\<lparr>updated_at := v\<rparr>
          else row
      | (k, Uuid v) \<Rightarrow> row
      | (k, Null) \<Rightarrow> row)"

definition apply_updates :: "(string \<times> sql_value) list \<Rightarrow> task_row \<Rightarrow> task_row" where
  "apply_updates updates row = foldl (\<lambda>r kv. set_column kv r) row updates"

definition execute_update :: "uuid \<Rightarrow> (string \<times> sql_value) list \<Rightarrow> database \<Rightarrow> database" where
  "execute_update tid updates db =
     send (''UPDATE tasks SET '' @ set_clause (map fst updates) @ '' WHERE id = $1'')
       (Uuid tid # map snd updates)
       (db\<lparr>tasks := map (\<lambda>r. if row_id r = tid then apply_updates updates r else r) (tasks db)\<rparr>)"

text \<open>
  \<^verbatim>\<open>update_task\<close>. \<open>now_completed\<close> and \<open>now_updated\<close> are the two readings of
  \<^verbatim>\<open>datetime.now()\<close>, in the order the handler takes them. The emptiness test comes before
  anything touches the store; \<^verbatim>\<open>uuid.UUID(task_id)\<close> is evaluated as an argument of
  \<^verbatim>\<open>conn.execute\<close>, so its \<^verbatim>\<open>ValueError\<close> comes before the UPDATE is sent. The table
  definitions are not part of the sources: the store is taken to accept every value it is
  sent, so the other exception the handler catches, \<^verbatim>\<open>asyncpg.DataError\<close>, does not arise.
\<close>

definition update_task ::
  "(string \<Rightarrow> uuid option) \<Rightarrow> timestamp \<Rightarrow> timestamp \<Rightarrow> string \<Rightarrow> TaskUpdate \<Rightarrow> database
     \<Rightarrow> (http_error + task_row) \<times> database" where
  "update_task UUID now_completed now_updated task_id task db =
     (let updates = collect_updates task now_completed
      in if updates = [] then (Inl (HTTPException 400 ''No fields to update''), db)
         else
           (let updates = updates @ [(''updated_at'', Timestamp now_updated)]
            in case UUID task_id of
                 None \<Rightarrow> (Inl (HTTPException 400 ''Invalid task ID''), db)
               | Some tid \<Rightarrow>
                   (case fetchrow_task tid (execute_update tid updates db) of
                      (None, db') \<Rightarrow> (Inl (HTTPException 404 ''Task not found''), db')
                    | (Some row, db') \<Rightarrow> (Inr (task_dict row), db'))))"

section \<open>Activity handlers\<close>

text \<open>The dictionary the activity handlers and the stream answer with: \<^verbatim>\<open>"data"\<close> is
  \<^verbatim>\<open>row["data"]\<close>, as fetched.\<close>

definition event_dict :: "event_row \<Rightarrow> event_row" where
  "event_dict row =
     \<lparr> event_id = event_id row, event_type = event_type row, source = source row,
       data = data row, event_created_at = event_created_at row \<rparr>"



section \<open>The activity stream\<close>

text \<open>A server-sent event: its name and the dictionary its data line renders.\<close>

datatype sse_frame = Frame string event_row

text \<open>
  The \<^verbatim>\<open>for row in rows\<close> loop of \<^verbatim>\<open>activity_event_generator\<close>: it collects the
  dictionaries and assigns \<^verbatim>\<open>last_event_id\<close> only while that variable is still unset. The
  variable holds the ISO rendering of a timestamp, which is never the empty string, so
  it is modelled by the timestamp.
\<close>

fun collect_events ::
  "event_row list \<Rightarrow> timestamp option \<Rightarrow> event_row list \<times> timestamp option" where
  "collect_events [] last_event_id = ([], last_event_id)"
| "collect_events (row # rows) last_event_id =
     (let last' = (case last_event_id of None \<Rightarrow> Some (event_created_at row) | Some w \<Rightarrow> Some w);
          (events, last'') = collect_events rows last'
      in (event_dict row # events, last''))"

text \<open>One pass of the \<^verbatim>\<open>while True\<close> body: the query, the loop, the frames yielded.\<close>

definition activity_tick ::
  "database \<Rightarrow> timestamp option \<Rightarrow> sse_frame list \<times> timestamp option" where
  "activity_tick db last_event_id =
     (let rows = (case last_event_id of
                    None \<Rightarrow> take 100 (order_by_created_desc (activity_events db))
                  | Some w \<Rightarrow>
                      order_by_created_desc
                        (filter (\<lambda>r. w < event_created_at r) (activity_events db)));
          (events, last') = collect_events rows last_event_id
      in (map (Frame ''activity'') (rev events), last'))"

text \<open>
  The generator runs until it is cancelled. Its run over the passes it completes is a
  function of the store as each pass finds it: the result lists, pass by pass, the frames
  sent.
\<close>

fun activity_passes :: "database list \<Rightarrow> timestamp option \<Rightarrow> sse_frame list list" where
  "activity_passes [] last_event_id = []"
| "activity_passes (db # dbs) last_event_id =
     (let (frames, last') = activity_tick db last_event_id
      in frames # activity_passes dbs last')"

definition activity_event_generator :: "database list \<Rightarrow> sse_frame list list" where
  "activity_event_generator dbs = activity_passes dbs None"

section \<open>Sample inputs\<close>

text \<open>
  One parser the parameter \<open>UUID\<close> can be, for the concrete runs below: hyphens are
  dropped, and what remains must be 32 hexadecimal digits.
\<close>

definition hex_digit :: "char \<Rightarrow> nat option" where
  "hex_digit c =
     (let n = (of_char c :: nat)
      in if 48 \<le> n \<and> n \<le> 57 then Some (n - 48)
         else if 97 \<le> n \<and> n \<le> 102 then Some (n - 87)
         else if 65 \<le> n \<and> n \<le> 70 then Some (n - 55)
         else None)"

fun hex_number :: "string \<Rightarrow> nat \<Rightarrow> nat option" where
  "hex_number [] acc = Some acc"
| "hex_number (c # cs) acc =
     (case hex_digit c of None \<Rightarrow> None | Some d \<Rightarrow> hex_number cs (16 * acc + d))"

definition hex_UUID :: "string \<Rightarrow> uuid option" where
  "hex_UUID s =
     (let h = filter (\<lambda>c. c \<noteq> CHR ''-'') s
      in if length h = 32 then hex_number h 0 else None)"

text \<open>A board with one open task, and a request that only sets the status to done.\<close>

definition task7 :: task_row where
  "task7 =
     \<lparr> row_id = 7, title = ''Fix bug'', description = None, status = ''todo'', priority = 5,
       agent_id = None, created_at = 10, updated_at = 10, completed_at = None \<rparr>"

definition board :: database where
  "board = \<lparr> tasks = [task7], activity_events = [], statements = [] \<rparr>"

definition id7 :: string where
  "id7 = ''00000000-0000-0000-0000-000000000007''"

definition set_done :: TaskUpdate where
  "set_done =
     \<lparr> upd_title = None, upd_description = None, upd_status = Some ''done'',
       upd_priority = None, upd_agent_id = None, upd_completed_at = None \<rparr>"

text \<open>
  A store that holds only the given activity rows, an event with a given id and time,
  and one rendering the parameter \<open>dumps\<close> can be, for dictionaries of numbers:
  \<^verbatim>\<open>{"k": 1}\<close>, and \<^verbatim>\<open>{}\<close> for the empty dictionary.
\<close>

definition activity_log :: "event_row list \<Rightarrow> database" where
  "activity_log rows = \<lparr> tasks = [], activity_events = rows, statements = [] \<rparr>"

definition event_at :: "uuid \<Rightarrow> timestamp \<Rightarrow> event_row" where
  "event_at i t =
     \<lparr> event_id = i, event_type = ''deploy'', source = None, data = None,
       event_created_at = t \<rparr>"

definition nat_dumps :: "(string \<times> nat) list \<Rightarrow> string" where
  "nat_dumps d =
     ''{'' @ join '', '' (map (\<lambda>(k, v). [CHR 0x22] @ k @ [CHR 0x22] @ '': '' @ str_nat v) d) @ ''}''"

section \<open>Authentication\<close>

lemma partition_space_split:
  "CHR '' '' \<notin> set scheme \<Longrightarrow> partition_space (scheme @ CHR '' '' # tok) = (scheme, '' '', tok)"
  by (simp add: partition_space_def takeWhile_tail dropWhile_append)

lemma partition_space_none:
  "CHR '' '' \<notin> set a \<Longrightarrow> partition_space a = (a, [], [])"
  by (simp add: partition_space_def)

text \<open>The scheme that \<^verbatim>\<open>verify_token\<close> tests is the text before the first space.\<close>

lemma partition_space_scheme: "fst (partition_space a) = takeWhile (\<lambda>c. c \<noteq> CHR '' '') a"
proof (cases "CHR '' '' \<in> set a")
  case True
  then show ?thesis
    by (simp add: partition_space_def)
next
  case False
  then have "\<forall>c\<in>set a. c \<noteq> CHR '' ''"
    by blast
  then have "takeWhile (\<lambda>c. c \<noteq> CHR '' '') a = a"
    by (rule takeWhile_eq_all_conv [THEN iffD2])
  then show ?thesis
    using False unfolding partition_space_def by (simp del: takeWhile_eq_all_conv)
qed

lemma lower_Bearer: "lower ''Bearer'' = ''bearer''"
  by code_simp

lemma lower_Basic: "lower ''Basic'' \<noteq> ''bearer''"
  by code_simp

lemma lower_bearer_nonempty: "lower scheme = ''bearer'' \<Longrightarrow> scheme \<noteq> []"
  by (auto simp: lower_def)

lemma verify_token_open: "verify_token [] authorization = Inr ()"
  by (simp add: verify_token_def)

lemma verify_token_missing:
  "TOKEN \<noteq> [] \<Longrightarrow> authorization = None \<or> authorization = Some [] \<Longrightarrow>
   verify_token TOKEN authorization = Inl (HTTPException 401 ''Missing authorization header'')"
  by (auto simp: verify_token_def)

lemma verify_token_scheme:
  "TOKEN \<noteq> [] \<Longrightarrow> a \<noteq> [] \<Longrightarrow> lower (fst (partition_space a)) \<noteq> ''bearer'' \<Longrightarrow>
   verify_token TOKEN (Some a) = Inl (HTTPException 401 ''Invalid authorization scheme'')"
  by (cases "partition_space a") (simp add: verify_token_def)

lemma verify_token_bearer:
  "TOKEN \<noteq> [] \<Longrightarrow> CHR '' '' \<notin> set scheme \<Longrightarrow> lower scheme = ''bearer'' \<Longrightarrow>
   verify_token TOKEN (Some (scheme @ CHR '' '' # tok)) =
     (if tok \<noteq> TOKEN then Inl (HTTPException 403 ''Invalid token'') else Inr ())"
  by (simp add: verify_token_def partition_space_split)

lemma verify_token_bare:
  "TOKEN \<noteq> [] \<Longrightarrow> CHR '' '' \<notin> set scheme \<Longrightarrow> lower scheme = ''bearer'' \<Longrightarrow>
   verify_token TOKEN (Some scheme) = Inl (HTTPException 403 ''Invalid token'')"
  using lower_bearer_nonempty [of scheme]
  by (simp add: verify_token_def partition_space_none)


text \<open>
  C8. On every route other than \<^verbatim>\<open>/health\<close>: with no token configured every request
  passes. With a token configured, a request with no Authorization header, or an empty
  one, is refused with 401; so is one whose scheme, the text before the first space, is
  not \<^verbatim>\<open>bearer\<close> in any letter case; a request with the bearer scheme and a token other
  than the configured one is refused with 403, which includes the bare word
  \<^verbatim>\<open>Bearer\<close>, whose token is the empty string; a request with the bearer scheme and
  exactly the configured token passes.
\<close>

theorem verify_token_gate:
  "r \<noteq> Health \<Longrightarrow>
   (TOKEN = [] \<longrightarrow> auth_check TOKEN r authorization = Inr ()) \<and>
   (TOKEN \<noteq> [] \<longrightarrow>
      (authorization = None \<or> authorization = Some [] \<longrightarrow>
         auth_check TOKEN r authorization = Inl (HTTPException 401 ''Missing authorization header'')) \<and>
      (\<forall>a. authorization = Some a \<and> a \<noteq> [] \<and> lower (fst (partition_space a)) \<noteq> ''bearer'' \<longrightarrow>
         auth_check TOKEN r authorization = Inl (HTTPException 401 ''Invalid authorization scheme'')) \<and>
      (\<forall>scheme tok. authorization = Some (scheme @ '' '' @ tok) \<and> CHR '' '' \<notin> set scheme \<and>
           lower scheme = ''bearer'' \<and> tok \<noteq> TOKEN \<longrightarrow>
         auth_check TOKEN r authorization = Inl (HTTPException 403 ''Invalid token'')) \<and>
      (\<forall>scheme. authorization = Some scheme \<and> CHR '' '' \<notin> set scheme \<and> lower scheme = ''bearer'' \<longrightarrow>
         auth_check TOKEN r authorization = Inl (HTTPException 403 ''Invalid token'')) \<and>
      (\<forall>scheme. authorization = Some (scheme @ '' '' @ TOKEN) \<and> CHR '' '' \<notin> set scheme \<and>
           lower scheme = ''bearer'' \<longrightarrow>
         auth_check TOKEN r authorization = Inr ()))"
proof -
  assume r: "r \<noteq> Health"
  then have gate: "auth_check TOKEN r authorization = verify_token TOKEN authorization"
    by (cases r) (simp_all add: auth_check_def)
  show ?thesis
    unfolding gate
    using verify_token_missing [of TOKEN authorization]
    by (auto simp: verify_token_open verify_token_scheme verify_token_bearer verify_token_bare)
qed

theorem verify_token_gate_witness:
  "auth_check [] GetTask None = Inr () \<and>
   auth_check ''s3cret'' GetKanbanTasks None = Inl (HTTPException 401 ''Missing authorization header'') \<and>
   auth_check ''s3cret'' UpdateTask (Some ''Basic s3cret'') =
     Inl (HTTPException 401 ''Invalid authorization scheme'') \<and>
   auth_check ''s3cret'' StreamActivity (Some ''Bearer wrong'') = Inl (HTTPException 403 ''Invalid token'') \<and>
   auth_check ''s3cret'' DeleteTask (Some ''Bearer'') = Inl (HTTPException 403 ''Invalid token'') \<and>
   auth_check ''s3cret'' LogActivity (Some ''Bearer s3cret'') = Inr ()"
proof -
  have p: "partition_space ''Basic s3cret'' = (''Basic'', '' '', ''s3cret'')"
    using partition_space_split [of "''Basic''" "''s3cret''"] by simp
  have 1: "auth_check [] GetTask None = Inr ()"
    using verify_token_gate [of GetTask "[]" None] by simp
  have 2: "auth_check ''s3cret'' GetKanbanTasks None = Inl (HTTPException 401 ''Missing authorization header'')"
    using verify_token_gate [of GetKanbanTasks "''s3cret''" None] by simp
  have 3: "auth_check ''s3cret'' UpdateTask (Some ''Basic s3cret'') =
     Inl (HTTPException 401 ''Invalid authorization scheme'')"
    using verify_token_gate [of UpdateTask "''s3cret''" "Some ''Basic s3cret''"] p lower_Basic by simp
  have g4: "StreamActivity \<noteq> Health" by simp
  have 4: "auth_check ''s3cret'' StreamActivity (Some ''Bearer wrong'') = Inl (HTTPException 403 ''Invalid token'')"
    using verify_token_gate [OF g4, of "''s3cret''" "Some (''Bearer'' @ '' '' @ ''wrong'')", THEN conjunct2, THEN mp,
        THEN conjunct2, THEN conjunct2, THEN conjunct1, THEN spec, THEN spec, of "''Bearer''" "''wrong''"]
      lower_Bearer by simp
  have g5: "DeleteTask \<noteq> Health" by simp
  have 5: "auth_check ''s3cret'' DeleteTask (Some ''Bearer'') = Inl (HTTPException 403 ''Invalid token'')"
    using verify_token_gate [OF g5, of "''s3cret''" "Some ''Bearer''"] lower_Bearer by simp
  have g6: "LogActivity \<noteq> Health" by simp
  have 6: "auth_check ''s3cret'' LogActivity (Some ''Bearer s3cret'') = Inr ()"
    using verify_token_gate [OF g6, of "''s3cret''" "Some (''Bearer'' @ '' '' @ ''s3cret'')", THEN conjunct2, THEN mp,
        THEN conjunct2, THEN conjunct2, THEN conjunct2, THEN conjunct2, THEN spec, of "''Bearer''"]
      lower_Bearer by simp
  show ?thesis using 1 2 3 4 5 6 by blast
qed


section \<open>Reading one task\<close>

lemma task_dict_id: "task_dict row = row"
  by (simp add: task_dict_def)

lemma hex_UUID_id7: "hex_UUID id7 = Some 7"
  by code_simp

text \<open>
  C5. \<^verbatim>\<open>get_task\<close> with an identifier the parser rejects fails with 400 and leaves the
  store as it was, no statement sent; with an identifier the parser accepts and no row of
  that id, it sends its one SELECT and fails with 404; with a row of that id it answers
  with a row of that id. The two errors differ.
\<close>

theorem get_task_invalid_or_missing:
  "(UUID task_id = None \<longrightarrow>
      get_task UUID task_id db = (Inl (HTTPException 400 ''Invalid task ID''), db)) \<and>
   (\<forall>tid. UUID task_id = Some tid \<and> (\<forall>r\<in>set (tasks db). row_id r \<noteq> tid) \<longrightarrow>
      get_task UUID task_id db =
        (Inl (HTTPException 404 ''Task not found''),
         db\<lparr>statements := statements db @ [(''SELECT * FROM tasks WHERE id = $1'', [Uuid tid])]\<rparr>)) \<and>
   (\<forall>tid row. UUID task_id = Some tid \<and> row \<in> set (tasks db) \<and> row_id row = tid \<longrightarrow>
      (\<exists>found. fst (get_task UUID task_id db) = Inr found \<and> row_id found = tid)) \<and>
   HTTPException 400 ''Invalid task ID'' \<noteq> HTTPException 404 ''Task not found''"
proof (intro conjI allI impI)
  assume "UUID task_id = None"
  then show "get_task UUID task_id db = (Inl (HTTPException 400 ''Invalid task ID''), db)"
    by (simp add: get_task_def)
next
  fix tid
  assume a: "UUID task_id = Some tid \<and> (\<forall>r\<in>set (tasks db). row_id r \<noteq> tid)"
  then have "find (\<lambda>r. row_id r = tid) (tasks db) = None"
    by (simp add: find_None_iff)
  with a show "get_task UUID task_id db =
        (Inl (HTTPException 404 ''Task not found''),
         db\<lparr>statements := statements db @ [(''SELECT * FROM tasks WHERE id = $1'', [Uuid tid])]\<rparr>)"
    by (simp add: get_task_def fetchrow_task_def send_def)
next
  fix tid row
  assume a: "UUID task_id = Some tid \<and> row \<in> set (tasks db) \<and> row_id row = tid"
  then have "find (\<lambda>r. row_id r = tid) (tasks db) \<noteq> None"
    by (auto simp: find_None_iff)
  then obtain found where f: "find (\<lambda>r. row_id r = tid) (tasks db) = Some found"
    by blast
  then have "row_id found = tid"
    by (auto simp: find_Some_iff)
  with a f show "\<exists>found. fst (get_task UUID task_id db) = Inr found \<and> row_id found = tid"
    by (simp add: get_task_def fetchrow_task_def task_dict_id)
next
  show "HTTPException 400 ''Invalid task ID'' \<noteq> HTTPException 404 ''Task not found''"
    by simp
qed

theorem get_task_invalid_or_missing_witness:
  "get_task hex_UUID ''not-a-uuid'' board = (Inl (HTTPException 400 ''Invalid task ID''), board) \<and>
   get_task hex_UUID ''00000000-0000-0000-0000-000000000008'' board =
     (Inl (HTTPException 404 ''Task not found''),
      board\<lparr>statements := statements board @ [(''SELECT * FROM tasks WHERE id = $1'', [Uuid 8])]\<rparr>) \<and>
   (\<exists>found. fst (get_task hex_UUID id7 board) = Inr found \<and> row_id found = 7)"
proof -
  have bad: "hex_UUID ''not-a-uuid'' = None"
    by code_simp
  have id8: "hex_UUID ''00000000-0000-0000-0000-000000000008'' = Some 8"
    by code_simp
  have absent: "\<forall>r\<in>set (tasks board). row_id r \<noteq> 8"
    by (simp add: board_def task7_def)
  have present: "task7 \<in> set (tasks board) \<and> row_id task7 = 7"
    by (simp add: board_def task7_def)
  have 1: "get_task hex_UUID ''not-a-uuid'' board = (Inl (HTTPException 400 ''Invalid task ID''), board)"
    using get_task_invalid_or_missing [of hex_UUID "''not-a-uuid''" board] bad by blast
  have 2: "get_task hex_UUID ''00000000-0000-0000-0000-000000000008'' board =
     (Inl (HTTPException 404 ''Task not found''),
      board\<lparr>statements := statements board @ [(''SELECT * FROM tasks WHERE id = $1'', [Uuid 8])]\<rparr>)"
    using get_task_invalid_or_missing [of hex_UUID "''00000000-0000-0000-0000-000000000008''" board]
      id8 absent by blast
  have 3: "\<exists>found. fst (get_task hex_UUID id7 board) = Inr found \<and> row_id found = 7"
    using get_task_invalid_or_missing [of hex_UUID id7 board] hex_UUID_id7 present by blast
  show ?thesis
    using 1 2 3 by blast
qed

section \<open>Updating a task\<close>

lemma set_column_row_id: "row_id (set_column kv r) = row_id r"
  by (cases kv) (simp add: set_column_def split: sql_value.splits)

lemma apply_updates_row_id: "row_id (apply_updates updates r) = row_id r"
  unfolding apply_updates_def
  by (induction updates arbitrary: r) (simp_all add: set_column_row_id)

lemma set_column_completed_at:
  "completed_at (set_column (k, v) r) =
     (case v of Timestamp t \<Rightarrow> if k = ''completed_at'' then Some t else completed_at r
              | _ \<Rightarrow> completed_at r)"
  by (simp add: set_column_def split: sql_value.splits)

lemma apply_updates_completed_at:
  "completed_at (apply_updates
      (collect_updates task now_completed @ [(''updated_at'', Timestamp now_updated)]) r) =
   (if upd_status task = Some ''done'' \<and> \<not> truthy (upd_completed_at task)
    then Some now_completed else completed_at r)"
  by (simp add: apply_updates_def collect_updates_def set_column_completed_at split: option.splits)

lemma find_map_update:
  assumes "\<And>r. row_id (f r) = row_id r"
  shows "find (\<lambda>r. row_id r = tid) (map (\<lambda>r. if row_id r = tid then f r else r) rows) =
         map_option f (find (\<lambda>r. row_id r = tid) rows)"
  by (induction rows) (simp_all add: assms)

lemma update_task_success:
  assumes "update_task UUID now_completed now_updated task_id task db = (Inr row', db')"
  shows "\<exists>tid row. UUID task_id = Some tid \<and> find (\<lambda>r. row_id r = tid) (tasks db) = Some row \<and>
     row' = apply_updates
        (collect_updates task now_completed @ [(''updated_at'', Timestamp now_updated)]) row"
proof -
  from assms obtain tid where tid: "UUID task_id = Some tid"
    by (cases "UUID task_id") (auto simp: update_task_def Let_def split: if_splits)
  let ?ups = "collect_updates task now_completed @ [(''updated_at'', Timestamp now_updated)]"
  have f: "find (\<lambda>r. row_id r = tid) (tasks (execute_update tid ?ups db)) =
        map_option (apply_updates ?ups) (find (\<lambda>r. row_id r = tid) (tasks db))"
    by (simp add: execute_update_def send_def find_map_update apply_updates_row_id)
  from assms tid f show ?thesis
    by (cases "find (\<lambda>r. row_id r = tid) (tasks db)")
       (auto simp: update_task_def Let_def fetchrow_task_def task_dict_id split: if_splits)
qed

text \<open>
  C10. A request that supplies \<^verbatim>\<open>completed_at\<close> and nothing else is refused with the
  empty-update error 400, and the store is returned as it was: no statement is sent and
  no row changes.
\<close>

theorem update_task_only_completed_at:
  "update_task UUID now_completed now_updated task_id
     \<lparr> upd_title = None, upd_description = None, upd_status = None, upd_priority = None,
       upd_agent_id = None, upd_completed_at = Some c \<rparr> db =
   (Inl (HTTPException 400 ''No fields to update''), db)"
  by (simp add: update_task_def collect_updates_def)

text \<open>A supplied \<^verbatim>\<open>completed_at\<close> only switches the automatic stamp off: with one in the
  request, no row's \<^verbatim>\<open>completed_at\<close> changes, whatever else the request holds.\<close>

lemma update_task_keeps_supplied_completed_at_out:
  assumes "truthy (upd_completed_at task)"
  shows "map completed_at (tasks (snd (update_task UUID now_completed now_updated task_id task db))) =
         map completed_at (tasks db)"
proof (cases "collect_updates task now_completed = [] \<or> UUID task_id = None")
  case True
  then show ?thesis
    by (auto simp: update_task_def Let_def)
next
  case False
  then obtain tid where tid: "UUID task_id = Some tid"
    by blast
  let ?ups = "collect_updates task now_completed @ [(''updated_at'', Timestamp now_updated)]"
  have "tasks (snd (update_task UUID now_completed now_updated task_id task db)) =
        tasks (execute_update tid ?ups db)"
    using False tid
    by (simp add: update_task_def Let_def fetchrow_task_def send_def split: prod.splits option.splits)
  then show ?thesis
    using assms
    by (simp add: execute_update_def send_def apply_updates_completed_at o_def cong: map_cong)
qed

text \<open>
  C2, on the code: the task is open with no \<^verbatim>\<open>completed_at\<close>; the request sets the
  status to done and supplies \<^verbatim>\<open>completed_at = "2024-01-01T00:00:00"\<close>. The update succeeds,
  and the row it answers with is done and still has no \<^verbatim>\<open>completed_at\<close>: the supplied
  value is not written.
\<close>

theorem update_task_supplied_completed_at_not_written:
  "fst (update_task hex_UUID 50 51 id7
          \<lparr> upd_title = None, upd_description = None, upd_status = Some ''done'',
            upd_priority = None, upd_agent_id = None,
            upd_completed_at = Some ''2024-01-01T00:00:00'' \<rparr> board) =
   Inr \<lparr> row_id = 7, title = ''Fix bug'', description = None, status = ''done'', priority = 5,
         agent_id = None, created_at = 10, updated_at = 51, completed_at = None \<rparr>"
  by code_simp

text \<open>
  C3, as the code has it. For every successful update with no \<^verbatim>\<open>completed_at\<close> in the
  request: when the request carries status done, the row's \<^verbatim>\<open>completed_at\<close> is the current
  time, whatever the row's status was before; when it does not, the row's
  \<^verbatim>\<open>completed_at\<close> is what it was.
\<close>

theorem completed_at_stamped_on_every_done_update:
  assumes "\<not> truthy (upd_completed_at task)"
    and "update_task UUID now_completed now_updated task_id task db = (Inr row', db')"
  shows "\<exists>tid row. UUID task_id = Some tid \<and> find (\<lambda>r. row_id r = tid) (tasks db) = Some row \<and>
     completed_at row' =
       (if upd_status task = Some ''done'' then Some now_completed else completed_at row)"
proof -
  from update_task_success [OF assms(2)] obtain tid row where
    "UUID task_id = Some tid" "find (\<lambda>r. row_id r = tid) (tasks db) = Some row"
    "row' = apply_updates
        (collect_updates task now_completed @ [(''updated_at'', Timestamp now_updated)]) row"
    by blast
  with assms(1) show ?thesis
    by (simp add: apply_updates_completed_at)
qed

theorem completed_at_stamped_on_every_done_update_witness:
  "\<not> truthy (upd_completed_at set_done) \<and>
   fst (update_task hex_UUID 90 91 id7 set_done
          (snd (update_task hex_UUID 50 51 id7 set_done board))) =
     Inr \<lparr> row_id = 7, title = ''Fix bug'', description = None, status = ''done'', priority = 5,
           agent_id = None, created_at = 10, updated_at = 91, completed_at = Some 90 \<rparr> \<and>
   (\<exists>tid row. hex_UUID id7 = Some tid \<and>
      find (\<lambda>r. row_id r = tid) (tasks (snd (update_task hex_UUID 50 51 id7 set_done board))) = Some row \<and>
      status row = ''done'' \<and> completed_at row = Some 50 \<and>
      Some (90::int) = (if upd_status set_done = Some ''done'' then Some 90 else completed_at row))"
proof -
  let ?db1 = "snd (update_task hex_UUID 50 51 id7 set_done board)"
  let ?row2 = "\<lparr> row_id = 7, title = ''Fix bug'', description = None, status = ''done'', priority = 5,
           agent_id = None, created_at = 10, updated_at = 91, completed_at = Some 90 \<rparr>"
  have a: "\<not> truthy (upd_completed_at set_done)"
    by code_simp
  have b: "fst (update_task hex_UUID 90 91 id7 set_done ?db1) = Inr ?row2"
    by code_simp
  then have c: "update_task hex_UUID 90 91 id7 set_done ?db1 =
      (Inr ?row2, snd (update_task hex_UUID 90 91 id7 set_done ?db1))"
    by (metis prod.collapse)
  have d: "find (\<lambda>r. row_id r = 7) (tasks ?db1) =
      Some \<lparr> row_id = 7, title = ''Fix bug'', description = None, status = ''done'', priority = 5,
           agent_id = None, created_at = 10, updated_at = 51, completed_at = Some 50 \<rparr>"
    by code_simp
  have e: "hex_UUID id7 = Some 7"
    by code_simp
  from completed_at_stamped_on_every_done_update [OF a c] d e
  have "\<exists>tid row. hex_UUID id7 = Some tid \<and>
      find (\<lambda>r. row_id r = tid) (tasks ?db1) = Some row \<and>
      status row = ''done'' \<and> completed_at row = Some 50 \<and>
      Some (90::int) = (if upd_status set_done = Some ''done'' then Some 90 else completed_at row)"
    by auto
  with a b show ?thesis
    by blast
qed

text \<open>
  C3 as stated fails: two done updates in a row. The first stamps 50; the second finds the
  task already done and stamps 90 over it.
\<close>

theorem completed_at_stamped_once_counterexample:
  "fst (update_task hex_UUID 50 51 id7 set_done board) =
     Inr \<lparr> row_id = 7, title = ''Fix bug'', description = None, status = ''done'', priority = 5,
           agent_id = None, created_at = 10, updated_at = 51, completed_at = Some 50 \<rparr> \<and>
   fst (update_task hex_UUID 90 91 id7 set_done
          (snd (update_task hex_UUID 50 51 id7 set_done board))) =
     Inr \<lparr> row_id = 7, title = ''Fix bug'', description = None, status = ''done'', priority = 5,
           agent_id = None, created_at = 10, updated_at = 91, completed_at = Some 90 \<rparr>"
  by code_simp

text \<open>Which keys \<^verbatim>\<open>updates\<close> has is decided by which fields are present, and by the one
  comparison of the status with \<^verbatim>\<open>"done"\<close>; no key is taken from a value.\<close>

lemma update_columns_by_presence:
  "map fst (collect_updates task now_completed) =
     (if upd_title task = None then [] else [''title'']) @
     (if upd_description task = None then [] else [''description'']) @
     (if upd_status task = None then []
      else ''status'' #
        (if upd_status task = Some ''done'' \<and> \<not> truthy (upd_completed_at task)
         then [''completed_at''] else [])) @
     (if upd_priority task = None then [] else [''priority'']) @
     (if upd_agent_id task = None then [] else [''agent_id''])"
  by (simp add: collect_updates_def split: option.splits)

lemma update_columns_subseq:
  "subseq (map fst (collect_updates task now_completed @ [(''updated_at'', Timestamp now_updated)]))
     [''title'', ''description'', ''status'', ''completed_at'', ''priority'', ''agent_id'', ''updated_at'']"
  by (simp add: collect_updates_def split: option.splits)

lemma update_task_statements:
  "snd (update_task UUID now_completed now_updated task_id task db) = db \<or>
   (\<exists>tid. UUID task_id = Some tid \<and>
      statements (snd (update_task UUID now_completed now_updated task_id task db)) =
        statements db @
        [(''UPDATE tasks SET '' @
            set_clause (map fst (collect_updates task now_completed @
                                  [(''updated_at'', Timestamp now_updated)])) @
            '' WHERE id = $1'',
          Uuid tid # map snd (collect_updates task now_completed @
                               [(''updated_at'', Timestamp now_updated)])),
         (''SELECT * FROM tasks WHERE id = $1'', [Uuid tid])])"
  by (cases "UUID task_id")
     (auto simp: update_task_def Let_def fetchrow_task_def execute_update_def send_def
           split: option.splits prod.splits)

text \<open>
  C9. The keys of \<^verbatim>\<open>updates\<close>, which are what the handler writes into the text of its UPDATE
  statement, are fixed names chosen by which fields of the request are present, and with
  \<^verbatim>\<open>updated_at\<close> they are a subsequence of the seven fixed column names, in that order, for
  every request. The handler either sends nothing, or sends exactly that UPDATE and the SELECT
  after it: the text of the UPDATE is built from those keys and numbered placeholders, and
  its parameters are the parsed task id followed by the values of \<^verbatim>\<open>updates\<close>.
\<close>

theorem update_statement_columns_fixed:
  "map fst (collect_updates task now_completed) =
     (if upd_title task = None then [] else [''title'']) @
     (if upd_description task = None then [] else [''description'']) @
     (if upd_status task = None then []
      else ''status'' #
        (if upd_status task = Some ''done'' \<and> \<not> truthy (upd_completed_at task)
         then [''completed_at''] else [])) @
     (if upd_priority task = None then [] else [''priority'']) @
     (if upd_agent_id task = None then [] else [''agent_id'']) \<and>
   subseq (map fst (collect_updates task now_completed @ [(''updated_at'', Timestamp now_updated)]))
     [''title'', ''description'', ''status'', ''completed_at'', ''priority'', ''agent_id'',
      ''updated_at''] \<and>
   (snd (update_task UUID now_completed now_updated task_id task db) = db \<or>
    (\<exists>tid. UUID task_id = Some tid \<and>
       statements (snd (update_task UUID now_completed now_updated task_id task db)) =
         statements db @
         [(''UPDATE tasks SET '' @
             set_clause (map fst (collect_updates task now_completed @
                                   [(''updated_at'', Timestamp now_updated)])) @
             '' WHERE id = $1'',
           Uuid tid # map snd (collect_updates task now_completed @
                                [(''updated_at'', Timestamp now_updated)])),
          (''SELECT * FROM tasks WHERE id = $1'', [Uuid tid])]))"
  using update_columns_by_presence [of task now_completed]
    update_columns_subseq [of task now_completed now_updated]
    update_task_statements [of UUID now_completed now_updated task_id task db]
  by blast

lemma update_statement_example:
  "statements (snd (update_task hex_UUID 50 51 id7 set_done board)) =
     [(''UPDATE tasks SET status = $2, completed_at = $3, updated_at = $4 WHERE id = $1'',
       [Uuid 7, Text ''done'', Timestamp 50, Timestamp 51]),
      (''SELECT * FROM tasks WHERE id = $1'', [Uuid 7])]"
  by code_simp

section \<open>Listing tasks\<close>

lemma map_task_dict: "map task_dict rows = rows"
  by (induction rows) (simp_all add: task_dict_id)

lemma order_by_priority_created_mset: "mset (order_by_priority_created rows) = mset rows"
  by (simp add: order_by_priority_created_def)

lemma order_by_priority_created_sorted:
  "sorted_wrt (\<lambda>a b. priority b < priority a \<or> (priority a = priority b \<and> created_at b \<le> created_at a))
     (order_by_priority_created rows)"
proof -
  have "sorted (map (\<lambda>r. (- priority r, - created_at r)) (order_by_priority_created rows))"
    by (simp add: order_by_priority_created_def)
  then have "sorted_wrt (\<lambda>a b. (- priority a, - created_at a) \<le> (- priority b, - created_at b))
      (order_by_priority_created rows)"
    by (simp add: sorted_map)
  then show ?thesis
    by (rule sorted_wrt_mono_rel [rotated]) auto
qed

text \<open>
  C6, as the code has it. The list is a permutation of the stored tasks that pass the
  filter, where a filter counts only when its string is not empty: the status filter when
  a non-empty status is given, otherwise the agent filter when a non-empty agent id is
  given, otherwise all tasks. It is ordered by priority descending, and by
  \<^verbatim>\<open>created_at\<close> descending among equal priorities.
\<close>

theorem get_kanban_tasks_filtered_and_ordered:
  "mset (fst (get_kanban_tasks status_q agent_q db)) =
     filter_mset
       (\<lambda>r. if truthy status_q then Some (status r) = status_q
            else if truthy agent_q then agent_id r = agent_q
            else True)
       (mset (tasks db)) \<and>
   sorted_wrt (\<lambda>a b. priority b < priority a \<or> (priority a = priority b \<and> created_at b \<le> created_at a))
     (fst (get_kanban_tasks status_q agent_q db))"
proof -
  have "fst (get_kanban_tasks status_q agent_q db) =
      order_by_priority_created
        (filter (\<lambda>r. if truthy status_q then Some (status r) = status_q
                      else if truthy agent_q then agent_id r = agent_q
                      else True) (tasks db))"
    by (simp add: get_kanban_tasks_def truthy_def map_task_dict split: option.splits list.splits)
  then show ?thesis
    by (simp add: order_by_priority_created_mset order_by_priority_created_sorted)
qed

text \<open>
  C6 as stated fails for a status that is given and empty (\<^verbatim>\<open>GET /kanban?status=\<close>): the
  handler takes the last branch and answers with every task, here one whose status is not
  the empty string.
\<close>

theorem get_kanban_tasks_empty_status_counterexample:
  "fst (get_kanban_tasks (Some []) None board) = [task7] \<and> status task7 \<noteq> []"
  by code_simp

text \<open>With both filters given, the status decides; the order is priority, then recency.\<close>

lemma get_kanban_tasks_example:
  "fst (get_kanban_tasks (Some ''todo'') (Some ''agent-1'')
     (board\<lparr>tasks := [task7, task7\<lparr>row_id := 8, priority := 9\<rparr>,
                       task7\<lparr>row_id := 9, status := ''done''\<rparr>,
                       task7\<lparr>row_id := 10, created_at := 30\<rparr>]\<rparr>)) =
   [task7\<lparr>row_id := 8, priority := 9\<rparr>, task7\<lparr>row_id := 10, created_at := 30\<rparr>, task7]"
  by code_simp

section \<open>The payload of an activity event\<close>

lemma event_dict_id: "event_dict row = row"
  by (simp add: event_dict_def)



lemma collect_events_rows: "fst (collect_events rows last_event_id) = rows"
  by (induction rows arbitrary: last_event_id)
     (simp_all add: event_dict_id Let_def split_beta)

lemma collect_events_watermark:
  "snd (collect_events rows last_event_id) =
     (case last_event_id of
        Some w \<Rightarrow> Some w
      | None \<Rightarrow> (case rows of [] \<Rightarrow> None | row # _ \<Rightarrow> Some (event_created_at row)))"
  by (induction rows arbitrary: last_event_id)
     (simp_all add: Let_def split_beta split: option.splits)



lemma activity_tick_frames:
  "fst (activity_tick db last_event_id) =
     map (Frame ''activity'')
       (rev (case last_event_id of
               None \<Rightarrow> take 100 (order_by_created_desc (activity_events db))
             | Some w \<Rightarrow> order_by_created_desc
                          (filter (\<lambda>r. w < event_created_at r) (activity_events db))))"
proof -
  have "fst (case collect_events rows last_event_id of
               (events, last') \<Rightarrow> (map (Frame ''activity'') (rev events), last')) =
        map (Frame ''activity'') (rev rows)" for rows
    using collect_events_rows [of rows last_event_id]
    by (simp add: split_beta)
  then show ?thesis
    by (simp add: activity_tick_def Let_def)
qed










lemma nat_dumps_example:
  "nat_dumps [(''retries'', 3)] = ''{'' @ [CHR 0x22] @ ''retries'' @ [CHR 0x22] @ '': 3}''"
  by code_simp

section \<open>The first pass of the activity stream\<close>

lemma order_by_created_desc_mset: "mset (order_by_created_desc rows) = mset rows"
  by (simp add: order_by_created_desc_def)

lemma order_by_created_desc_sorted:
  "sorted_wrt (\<lambda>a b. event_created_at b \<le> event_created_at a) (order_by_created_desc rows)"
proof -
  have "sorted (map (\<lambda>r. - event_created_at r) (order_by_created_desc rows))"
    by (simp add: order_by_created_desc_def)
  then show ?thesis
    by (simp add: sorted_map)
qed

lemma newest_first_prefix:
  assumes "sorted_wrt (\<lambda>a b. event_created_at b \<le> event_created_at a) rows"
  shows "sorted (map event_created_at (rev (take n rows)))"
    and "\<forall>old\<in>set (drop n rows). \<forall>e\<in>set (take n rows). event_created_at old \<le> event_created_at e"
proof -
  from assms have split: "sorted_wrt (\<lambda>a b. event_created_at b \<le> event_created_at a) (take n rows @ drop n rows)"
    by simp
  then have "sorted_wrt (\<lambda>a b. event_created_at b \<le> event_created_at a) (take n rows)"
    unfolding sorted_wrt_append by blast
  then have "sorted_wrt (\<lambda>a b. event_created_at a \<le> event_created_at b) (rev (take n rows))"
    by (simp add: sorted_wrt_rev)
  then show "sorted (map event_created_at (rev (take n rows)))"
    by (simp add: sorted_map)
  from split show "\<forall>old\<in>set (drop n rows). \<forall>e\<in>set (take n rows). event_created_at old \<le> event_created_at e"
    unfolding sorted_wrt_append by blast
qed






section \<open>The watermark of the activity stream\<close>

text \<open>
  The first pass that finds a row sets \<^verbatim>\<open>last_event_id\<close> to the timestamp of the first row
  of the query, the newest; no later pass changes it.
\<close>

lemma activity_tick_keeps_watermark: "snd (activity_tick db (Some w)) = Some w"
  by (simp add: activity_tick_def Let_def split_beta collect_events_watermark)

lemma activity_tick_sets_watermark:
  "snd (activity_tick db None) =
     (case order_by_created_desc (activity_events db) of
        [] \<Rightarrow> None | row # _ \<Rightarrow> Some (event_created_at row))"
  by (cases "order_by_created_desc (activity_events db)")
     (simp_all add: activity_tick_def Let_def split_beta collect_events_watermark)

text \<open>
  What does hold on a pass with the watermark set: the frames are exactly the stored
  events strictly newer than the watermark, oldest first.
\<close>

lemma activity_tick_delta:
  "\<exists>evs. fst (activity_tick db (Some w)) = map (Frame ''activity'') evs \<and>
     sorted (map event_created_at evs) \<and>
     mset evs = filter_mset (\<lambda>r. w < event_created_at r) (mset (activity_events db))"
proof -
  let ?rows = "order_by_created_desc (filter (\<lambda>r. w < event_created_at r) (activity_events db))"
  have "fst (activity_tick db (Some w)) = map (Frame ''activity'') (rev ?rows)"
    by (simp add: activity_tick_frames)
  moreover have "sorted (map event_created_at (rev (take (length ?rows) ?rows)))"
    by (rule newest_first_prefix(1) [OF order_by_created_desc_sorted])
  then have "sorted (map event_created_at (rev ?rows))"
    by simp
  moreover have "mset (rev ?rows) = filter_mset (\<lambda>r. w < event_created_at r) (mset (activity_events db))"
    by (simp add: order_by_created_desc_mset)
  ultimately show ?thesis
    by blast
qed

text \<open>
  C1, on the code: three events at the times 1, 2, 3 are stored before the connection
  opens, and a fourth at time 4 is stored between the first pass and the second. The
  first pass sends the three and sets the watermark to 3. The second pass sends the
  fourth; the watermark stays 3, so the third pass sends the fourth again.
\<close>

theorem activity_stream_repeats_event:
  "activity_event_generator
     [activity_log [event_at 1 1, event_at 2 2, event_at 3 3],
      activity_log [event_at 1 1, event_at 2 2, event_at 3 3, event_at 4 4],
      activity_log [event_at 1 1, event_at 2 2, event_at 3 3, event_at 4 4]] =
   [[Frame ''activity'' (event_at 1 1), Frame ''activity'' (event_at 2 2),
     Frame ''activity'' (event_at 3 3)],
    [Frame ''activity'' (event_at 4 4)],
    [Frame ''activity'' (event_at 4 4)]]"
  by code_simp

end
